theory Spec2Isabelle
  imports Main
begin

section \<open>JavaScript values\<close>

text \<open>
  The values an observer component's props and state cells hold, and the values its render
  logic returns or throws. Numbers are integers here (no NaN, no signed zero), so the
  strict comparison \<^verbatim>\<open>===\<close> and \<^verbatim>\<open>Object.is\<close> agree and both are HOL equality:
  primitives compare by value, objects by reference (their address).
\<close>

datatype jsval =
    JUndefined
  | JNull
  | JBool bool
  | JNum int
  | JStr string
  | JObj nat

text \<open>What \<^verbatim>\<open>if (v)\<close> and \<^verbatim>\<open>!v\<close> test.\<close>

fun truthy :: "jsval \<Rightarrow> bool" where
  "truthy JUndefined = False"
| "truthy JNull = False"
| "truthy (JBool b) = b"
| "truthy (JNum n) = (n \<noteq> 0)"
| "truthy (JStr s) = (s \<noteq> [])"
| "truthy (JObj a) = True"

text \<open>
  An object is the list of its own enumerable properties (distinct keys, in key order);
  the heap maps every address to the object stored there.
\<close>

type_synonym jsobject = "(string \<times> jsval) list"
type_synonym heap = "nat \<Rightarrow> jsobject"

text \<open>
  Modelled from the spec: \<^verbatim>\<open>shallowEqual\<close> is imported from \<^verbatim>\<open>./utils/utils\<close>, which is
  not among the sources. The spec: "Shallow equality: equality compared key-by-key at the
  top level only, not recursively"; "scalar/reference equality per top-level key, not deep
  equality -- a new object with identical nested content but a different reference IS
  considered changed".
\<close>

definition shallowEqual :: "heap \<Rightarrow> jsval \<Rightarrow> jsval \<Rightarrow> bool" where
  "shallowEqual h a b =
     (if a = b then True
      else case (a, b) of
        (JObj p, JObj q) \<Rightarrow>
          length (h p) = length (h q) \<and>
          list_all (\<lambda>k. k \<in> set (map fst (h q)) \<and> map_of (h p) k = map_of (h q) k)
            (map fst (h p))
      | _ \<Rightarrow> False)"

section \<open>Module state and component instances\<close>

text \<open>The two cells \<^verbatim>\<open>makeObservableProp\<close> installs: \<^verbatim>\<open>"props"\<close> and \<^verbatim>\<open>"state"\<close>.\<close>

datatype obsprop = Props | State

text \<open>
  An observable that a render can read: one of the component's own two atoms, or an
  observable of the application, named by a number.
\<close>

datatype dep = OwnAtom obsprop | External nat

text \<open>
  The \<^verbatim>\<open>Reaction\<close> of mobx, as far as this module uses it: whether it was disposed,
  and the observables its last \<^verbatim>\<open>track\<close> recorded.
\<close>

record reaction =
  isDisposed :: bool
  observing :: "dep list"

text \<open>The events \<^verbatim>\<open>renderReporter.emit\<close> is called with: component id and DOM node.\<close>

datatype report =
    RenderEvent nat "nat option"
  | DestroyEvent nat "nat option"

datatype warning =
    WarnInjector
  | WarnPureComponent
  | WarnShouldComponentUpdate
  | WarnStaticRerender

text \<open>
  The warnings printed with \<^verbatim>\<open>console.warn\<close>. \<open>WarnInjector\<close>: "You are trying to use
  'observer' on a component that already has 'inject'"; \<open>WarnPureComponent\<close>: "You are
  using 'observer' on React.PureComponent"; \<open>WarnShouldComponentUpdate\<close>: "Use
  shouldComponentUpdate in an observer based component breaks the behavior of observer";
  \<open>WarnStaticRerender\<close>: "a re-rendering of a React component is triggered while in
  static (server-side) mode".
\<close>

text \<open>
  The module-level variables, the two event emitters and the console (as the lists of what
  was emitted, oldest first), the heap, and the clock \<^verbatim>\<open>Date.now()\<close> reads.
\<close>

record globals =
  isDevtoolsEnabled :: bool
  isUsingStaticRendering :: bool
  componentByNodeRegistry :: "(nat \<rightharpoonup> nat) option"
  renderReporter :: "report list"
  errorsReporter :: "jsval list"
  consoleWarn :: "warning list"
  heap :: heap
  now :: nat

text \<open>
  What one call of the optional \<^verbatim>\<open>componentWillReact\<close> hook of the component author does,
  as far as the wrapper can tell: whether it has the component unmounted (the case the
  source's comment singles out), and whether it returns or throws (\<open>Some e\<close>: it throws
  \<open>e\<close>, after the unmounting if it does both).
\<close>

record hook =
  hookUnmounts :: bool
  hookThrows :: "jsval option"

text \<open>
  One component instance. \<open>valueHolder\<close> and \<open>atomHolder\<close> are the hidden properties of
  the two cells (the atom is created on first use); \<open>skipRender\<close>, \<open>isForcingUpdate\<close>
  and \<open>mobxIsUnmounted\<close> are the hidden flags (a missing flag reads as falsy);
  \<open>reaction\<close> is \<^verbatim>\<open>this.render[$mobx]\<close>, \<open>None\<close> as long as \<^verbatim>\<open>this.render\<close> is still the
  prototype's wrapper; \<open>isRenderingPending\<close> is the closure variable of
  \<^verbatim>\<open>makeComponentReactive\<close>. The host framework's side: \<open>forceUpdateCalls\<close> counts the
  calls of \<^verbatim>\<open>Component.prototype.forceUpdate\<close>, which enqueues a re-render and throws
  \<open>e\<close> when \<open>forceUpdateThrows\<close> is \<open>Some e\<close>; \<open>domNode\<close> is what \<^verbatim>\<open>findDOMNode\<close>
  finds. \<open>reportChangedCalls\<close> lists the calls of \<^verbatim>\<open>atom.reportChanged()\<close>.
\<close>

record component =
  cid :: nat
  valueHolder :: "obsprop \<Rightarrow> jsval"
  atomHolder :: "obsprop \<Rightarrow> bool"
  skipRender :: bool
  isForcingUpdate :: bool
  mobxIsUnmounted :: bool
  reaction :: "reaction option"
  isRenderingPending :: bool
  componentWillReact :: "hook option"
  mobRenderStart :: "nat option"
  mobRenderEnd :: "nat option"
  forceUpdateCalls :: nat
  forceUpdateThrows :: "jsval option"
  domNode :: "nat option"
  reportChangedCalls :: "obsprop list"

text \<open>
  One run of the component author's render function: the observables it reads, and
  whether it returns a rendering (\<open>Inr\<close>) or throws (\<open>Inl\<close>).
\<close>

record outcome =
  reads :: "dep list"
  completion :: "jsval + jsval"

type_synonym render_fn = "component \<Rightarrow> outcome"

section \<open>The static-rendering switch\<close>

text \<open>
  \<^verbatim>\<open>useStaticRendering\<close>. The call it forwards to (mobx-react-lite's switch) is outside this
  module.
\<close>

definition useStaticRendering :: "globals \<Rightarrow> bool \<Rightarrow> globals" where
  "useStaticRendering g b = g\<lparr>isUsingStaticRendering := b\<rparr>"

section \<open>The lifecycle mixin: unmounting\<close>

text \<open>
  \<^verbatim>\<open>reaction.dispose()\<close> sets the disposed flag (doing it twice is doing it once).
  \<^verbatim>\<open>findDOMNode\<close> of this module returns what the host's function finds, and \<^verbatim>\<open>null\<close> when
  that throws or is missing. Assignments to hidden properties (\<^verbatim>\<open>setHiddenProp\<close>) are
  updates of the component's fields.
\<close>

definition dispose :: "reaction \<Rightarrow> reaction" where
  "dispose r = r\<lparr>isDisposed := True\<rparr>"

definition findDOMNode :: "component \<Rightarrow> nat option" where
  "findDOMNode c = domNode c"

text \<open>\<^verbatim>\<open>reactiveMixin.componentWillUnmount\<close>.\<close>

definition reactiveMixin_componentWillUnmount :: "globals \<Rightarrow> component \<Rightarrow> globals \<times> component" where
  "reactiveMixin_componentWillUnmount g c =
     (if isUsingStaticRendering g then (g, c)
      else
        let c1 = c\<lparr>reaction := (case reaction c of None \<Rightarrow> None | Some r \<Rightarrow> Some (dispose r))\<rparr>;
            c2 = c1\<lparr>mobxIsUnmounted := True\<rparr>
        in if isDevtoolsEnabled g then
             let node = findDOMNode c2;
                 g1 = (case (node, componentByNodeRegistry g) of
                         (Some n, Some reg) \<Rightarrow> g\<lparr>componentByNodeRegistry := Some (reg(n := None))\<rparr>
                       | _ \<Rightarrow> g)
             in (g1\<lparr>renderReporter := renderReporter g1 @ [DestroyEvent (cid c2) node]\<rparr>, c2)
           else (g, c2))"

text \<open>
  \<^verbatim>\<open>reportRendering\<close>, \<^verbatim>\<open>reactiveMixin.componentDidMount\<close> and
  \<^verbatim>\<open>reactiveMixin.componentDidUpdate\<close>. The render and total times of the event are left
  out.
\<close>

definition reportRendering :: "globals \<Rightarrow> component \<Rightarrow> globals" where
  "reportRendering g c =
     (let node = findDOMNode c;
          g1 = (case (node, componentByNodeRegistry g) of
                  (Some n, Some reg) \<Rightarrow> g\<lparr>componentByNodeRegistry := Some (reg(n \<mapsto> cid c))\<rparr>
                | _ \<Rightarrow> g)
      in g1\<lparr>renderReporter := renderReporter g1 @ [RenderEvent (cid c) node]\<rparr>)"

definition reactiveMixin_componentDidMount :: "globals \<Rightarrow> component \<Rightarrow> globals" where
  "reactiveMixin_componentDidMount g c = (if isDevtoolsEnabled g then reportRendering g c else g)"

definition reactiveMixin_componentDidUpdate :: "globals \<Rightarrow> component \<Rightarrow> globals" where
  "reactiveMixin_componentDidUpdate g c = (if isDevtoolsEnabled g then reportRendering g c else g)"

section \<open>The reaction's callback\<close>

text \<open>The host's \<^verbatim>\<open>forceUpdate\<close>: the request is counted; it may throw.\<close>

definition forceUpdate :: "component \<Rightarrow> jsval option \<times> component" where
  "forceUpdate c = (forceUpdateThrows c, c\<lparr>forceUpdateCalls := Suc (forceUpdateCalls c)\<rparr>)"

text \<open>\<^verbatim>\<open>this.componentWillReact()\<close>: the exception that leaves it, if any, and the state after it.\<close>

definition runHook :: "globals \<Rightarrow> component \<Rightarrow> hook \<Rightarrow> jsval option \<times> globals \<times> component" where
  "runHook g c hk =
     (case (if hookUnmounts hk then reactiveMixin_componentWillUnmount g c else (g, c)) of
        (g', c') \<Rightarrow> (hookThrows hk, g', c'))"

text \<open>
  The function given to \<^verbatim>\<open>new Reaction\<close> in \<^verbatim>\<open>makeComponentReactive\<close>. The first
  component of the result is the exception that leaves it, if any. The call of the hook
  stands before the \<^verbatim>\<open>try\<close>: when the hook throws, the flag has been set, and neither the
  forced update nor the \<^verbatim>\<open>finally\<close> block is reached.
\<close>

definition onInvalidate :: "globals \<Rightarrow> component \<Rightarrow> jsval option \<times> globals \<times> component" where
  "onInvalidate g c =
     (if \<not> isRenderingPending c then
        let c1 = c\<lparr>isRenderingPending := True\<rparr>
        in (case (case componentWillReact c1 of
                    None \<Rightarrow> (None, g, c1)
                  | Some hk \<Rightarrow> runHook g c1 hk) of
              (Some e, g2, c2) \<Rightarrow> (Some e, g2, c2)
            | (None, g2, c2) \<Rightarrow>
                if \<not> mobxIsUnmounted c2 then
                  let c3 = c2\<lparr>isForcingUpdate := True\<rparr>
                  in if \<not> skipRender c3 then
                       (case forceUpdate c3 of
                          (None, c4) \<Rightarrow> (None, g2, c4\<lparr>isForcingUpdate := False\<rparr>)
                        | (Some e, c4) \<Rightarrow>
                            (Some e, g2,
                             c4\<lparr>isForcingUpdate := False,
                                reaction := (case reaction c4 of
                                               None \<Rightarrow> None
                                             | Some r \<Rightarrow> Some (dispose r))\<rparr>))
                     else (None, g2, c3\<lparr>isForcingUpdate := False\<rparr>)
                else (None, g2, c2))
      else (None, g, c))"

text \<open>
  Modelled from the spec: the dependency-tracking primitive (mobx) is an external
  collaborator. The spec: the Tracking Session "invokes a callback exactly when any
  recorded dependency subsequently changes value"; "once disposed, it must never fire its
  change callback again". \<open>dependencyChanged g c d\<close> is the primitive announcing a change
  of the observable \<open>d\<close> to the component's session, synchronously.
\<close>

definition dependencyChanged ::
  "globals \<Rightarrow> component \<Rightarrow> dep \<Rightarrow> jsval option \<times> globals \<times> component" where
  "dependencyChanged g c d =
     (case reaction c of
        None \<Rightarrow> (None, g, c)
      | Some r \<Rightarrow>
          if \<not> isDisposed r \<and> d \<in> set (observing r) then onInvalidate g c
          else (None, g, c))"

text \<open>A batch of changes, one after the other; exceptions of the callback stay with the primitive.\<close>

fun dependenciesChanged :: "globals \<Rightarrow> component \<Rightarrow> dep list \<Rightarrow> globals \<times> component" where
  "dependenciesChanged g c [] = (g, c)"
| "dependenciesChanged g c (d # ds) =
     (case dependencyChanged g c d of (_, g', c') \<Rightarrow> dependenciesChanged g' c' ds)"

section \<open>The observable props and state cells\<close>

text \<open>\<^verbatim>\<open>getAtom\<close>: the atom is created on first use.\<close>

definition getAtom :: "component \<Rightarrow> obsprop \<Rightarrow> component" where
  "getAtom c p = c\<lparr>atomHolder := (atomHolder c)(p := True)\<rparr>"

text \<open>\<^verbatim>\<open>atom.reportChanged()\<close>: the call is recorded, and the primitive announces the change.\<close>

definition reportChanged ::
  "globals \<Rightarrow> component \<Rightarrow> obsprop \<Rightarrow> jsval option \<times> globals \<times> component" where
  "reportChanged g c p =
     dependencyChanged g (c\<lparr>reportChangedCalls := reportChangedCalls c @ [p]\<rparr>) (OwnAtom p)"

text \<open>The getter of \<^verbatim>\<open>makeObservableProp\<close>; the read itself is recorded by the tracking render.\<close>

definition getProp :: "component \<Rightarrow> obsprop \<Rightarrow> jsval \<times> component" where
  "getProp c p = (let c1 = getAtom c p in (valueHolder c1 p, c1))"

text \<open>
  The setter of \<^verbatim>\<open>makeObservableProp\<close>. An exception leaving \<^verbatim>\<open>reportChanged\<close> skips the
  statement after it, as in the source (there is no \<^verbatim>\<open>finally\<close>).
\<close>

definition setProp ::
  "globals \<Rightarrow> component \<Rightarrow> obsprop \<Rightarrow> jsval \<Rightarrow> jsval option \<times> globals \<times> component" where
  "setProp g c p v =
     (if \<not> isForcingUpdate c \<and> \<not> shallowEqual (heap g) (valueHolder c p) v then
        let c1 = c\<lparr>valueHolder := (valueHolder c)(p := v)\<rparr>;
            c2 = c1\<lparr>skipRender := True\<rparr>
        in (case reportChanged g (getAtom c2 p) p of
              (None, g', c3) \<Rightarrow> (None, g', c3\<lparr>skipRender := False\<rparr>)
            | (Some e, g', c3) \<Rightarrow> (Some e, g', c3))
      else (None, g, c\<lparr>valueHolder := (valueHolder c)(p := v)\<rparr>))"

text \<open>
  \<^verbatim>\<open>reactiveMixin.shouldComponentUpdate\<close>. It reads \<^verbatim>\<open>this.state\<close> and \<^verbatim>\<open>this.props\<close>
  through the getters.
\<close>

definition reactiveMixin_shouldComponentUpdate ::
  "globals \<Rightarrow> component \<Rightarrow> jsval \<Rightarrow> jsval \<Rightarrow> bool \<times> globals \<times> component" where
  "reactiveMixin_shouldComponentUpdate g c nextProps nextState =
     (let g1 = (if isUsingStaticRendering g
                then g\<lparr>consoleWarn := consoleWarn g @ [WarnStaticRerender]\<rparr> else g);
          (state, c1) = getProp c State
      in if state \<noteq> nextState then (True, g1, c1)
         else
           let (props, c2) = getProp c1 Props
           in (\<not> shallowEqual (heap g1) props nextProps, g1, c2))"

section \<open>The reactive render wrapper\<close>

text \<open>The component's own atoms that a render reads are created by the getter.\<close>

fun ownReads :: "component \<Rightarrow> dep list \<Rightarrow> component" where
  "ownReads c [] = c"
| "ownReads c (OwnAtom p # ds) = ownReads (getAtom c p) ds"
| "ownReads c (External n # ds) = ownReads c ds"

text \<open>
  \<^verbatim>\<open>reactiveRender\<close>. \<^verbatim>\<open>reaction.track\<close> runs the function it is given and records what
  that read (the spec: \<^verbatim>\<open>track(fn)\<close> "executes \<^verbatim>\<open>fn\<close> synchronously"; the render runs
  under \<^verbatim>\<open>_allowStateChanges(false, ...)\<close> and is taken not to write observables);
  \<^verbatim>\<open>exception\<close> and \<^verbatim>\<open>rendering\<close> start as \<^verbatim>\<open>undefined\<close>, and the test after
  the tracking is \<^verbatim>\<open>if (exception)\<close>. The result is \<open>Inl e\<close> when \<open>e\<close> is thrown to the
  caller and \<open>Inr r\<close> when \<open>r\<close> is returned. \<open>beginRender\<close> is what \<^verbatim>\<open>reactiveRender\<close>
  does before the render logic runs: its first statement \<^verbatim>\<open>isRenderingPending = false\<close>,
  and the start time when devtools are enabled; the render logic is given that state.
\<close>

definition beginRender :: "globals \<Rightarrow> component \<Rightarrow> component" where
  "beginRender g c =
     (let c1 = c\<lparr>isRenderingPending := False\<rparr>
      in if isDevtoolsEnabled g then c1\<lparr>mobRenderStart := Some (now g)\<rparr> else c1)"

definition reactiveRender ::
  "render_fn \<Rightarrow> globals \<Rightarrow> component \<Rightarrow> (jsval + jsval) \<times> globals \<times> component" where
  "reactiveRender baseRender g c =
     (let c2 = beginRender g c;
          out = baseRender c2;
          rendering = (case completion out of Inl e \<Rightarrow> JUndefined | Inr r \<Rightarrow> r);
          exception = (case completion out of Inl e \<Rightarrow> e | Inr r \<Rightarrow> JUndefined);
          c3 = ownReads c2 (reads out);
          c4 = (if isDevtoolsEnabled g then c3\<lparr>mobRenderEnd := Some (now g)\<rparr> else c3);
          c5 = c4\<lparr>reaction := (case reaction c4 of
                                  None \<Rightarrow> None
                                | Some r \<Rightarrow> Some (r\<lparr>observing := reads out\<rparr>))\<rparr>
      in if truthy exception then
           (Inl exception,
            g\<lparr>errorsReporter := errorsReporter g @ [exception]\<rparr>,
            c5\<lparr>reaction := (case reaction c5 of None \<Rightarrow> None | Some r \<Rightarrow> Some (dispose r))\<rparr>)
         else (Inr rendering, g, c5))"

text \<open>
  \<^verbatim>\<open>makeComponentReactive\<close>, called by the prototype's render wrapper with the original
  render. In static mode it is \<^verbatim>\<open>render.call(this)\<close>; otherwise it creates the reaction,
  replaces \<^verbatim>\<open>this.render\<close> and runs the first tracked render.
\<close>

definition makeComponentReactive ::
  "render_fn \<Rightarrow> globals \<Rightarrow> component \<Rightarrow> (jsval + jsval) \<times> globals \<times> component" where
  "makeComponentReactive render g c =
     (if isUsingStaticRendering g then
        (let out = render c in (completion out, g, ownReads c (reads out)))
      else
        let c1 = c\<lparr>skipRender := False\<rparr>;
            c2 = c1\<lparr>isForcingUpdate := False\<rparr>;
            c3 = c2\<lparr>isRenderingPending := False,
                    reaction := Some \<lparr>isDisposed = False, observing = []\<rparr>\<rparr>
        in reactiveRender render g c3)"

text \<open>
  The host calling \<^verbatim>\<open>this.render()\<close>: the prototype's wrapper as long as the instance has
  no render of its own, \<^verbatim>\<open>reactiveRender\<close> afterwards.
\<close>

definition callRender ::
  "render_fn \<Rightarrow> globals \<Rightarrow> component \<Rightarrow> (jsval + jsval) \<times> globals \<times> component" where
  "callRender baseRender g c =
     (case reaction c of
        None \<Rightarrow> makeComponentReactive baseRender g c
      | Some r \<Rightarrow> reactiveRender baseRender g c)"

section \<open>The observer transform\<close>

text \<open>
  What a property of a component class or of its prototype evaluates to when it is read as
  a method: nothing (\<^verbatim>\<open>undefined\<close>), a value that is not a function (with its
  truthiness), or a function. The functions are those of the component author
  (\<open>UserFunction\<close>), the members of \<^verbatim>\<open>reactiveMixin\<close> by name, and the closures this
  module creates: what \<^verbatim>\<open>patch\<close> leaves in a lifecycle slot (the previous slot and the
  name of the mixin's member), the render wrapper \<^verbatim>\<open>function() { return
  makeComponentReactive.call(this, baseRender) }\<close> over the previous \<^verbatim>\<open>target.render\<close>,
  and the inner function of the forward ref the transform returns.
\<close>

datatype slot =
    Absent
  | NonFunction bool
  | UserFunction nat
  | ReactiveMixin string
  | Patched slot string
  | RenderWrapper slot
  | ObserverForwardRef slot

fun slotTruthy :: "slot \<Rightarrow> bool" where
  "slotTruthy Absent = False"
| "slotTruthy (NonFunction b) = b"
| "slotTruthy _ = True"

fun isFunction :: "slot \<Rightarrow> bool" where
  "isFunction Absent = False"
| "isFunction (NonFunction b) = False"
| "isFunction _ = True"

text \<open>\<^verbatim>\<open>componentClass.__proto__\<close>: the host's \<^verbatim>\<open>PureComponent\<close>, or anything else.\<close>

datatype proto = ProtoPureComponent | ProtoOther

text \<open>
  An object the transform can be given, or the prototype of one, by the properties the
  transform reads and writes: \<open>callable\<close> is \<^verbatim>\<open>typeof x === "function"\<close>,
  \<open>isMobxInjector\<close> is \<^verbatim>\<open>x.isMobxInjector === true\<close>, \<open>typeofSymbol\<close> is \<^verbatim>\<open>x["$$typeof"]\<close>
  when that is a symbol, \<open>prototype\<close> the address of \<^verbatim>\<open>x.prototype\<close> when that is
  truthy, \<open>isReactClass\<close> the truthiness of \<^verbatim>\<open>x.isReactClass\<close>, \<open>inheritsComponent\<close> the
  host's \<^verbatim>\<open>Component.isPrototypeOf(x)\<close>; \<open>methods\<close> gives \<^verbatim>\<open>x[name]\<close> for \<^verbatim>\<open>render\<close>,
  \<^verbatim>\<open>shouldComponentUpdate\<close> and the lifecycle methods; \<open>accessors\<close> are the properties
  \<^verbatim>\<open>makeObservableProp\<close> has defined; \<open>wraps\<close> is the function component an object made
  by \<^verbatim>\<open>observerLite\<close> wraps.
\<close>

record classobj =
  callable :: bool
  isMobxInjector :: bool
  proto :: proto
  typeofSymbol :: "nat option"
  prototype :: "nat option"
  isReactClass :: bool
  inheritsComponent :: bool
  propTypes :: slot
  defaultProps :: slot
  isMobXReactObserver :: bool
  methods :: "string \<Rightarrow> slot"
  accessors :: "string set"
  wraps :: "nat option"

text \<open>The objects by address, and the next address a new object gets.\<close>

record store =
  objects :: "nat \<Rightarrow> classobj"
  nextFree :: nat

definition updateObject :: "store \<Rightarrow> nat \<Rightarrow> (classobj \<Rightarrow> classobj) \<Rightarrow> store" where
  "updateObject s a f = s\<lparr>objects := (objects s)(a := f (objects s a))\<rparr>"

definition newObject :: "store \<Rightarrow> classobj \<Rightarrow> nat \<times> store" where
  "newObject s ob = (nextFree s, s\<lparr>objects := (objects s)(nextFree s := ob), nextFree := Suc (nextFree s)\<rparr>)"

definition emptyObject :: classobj where
  "emptyObject =
     \<lparr>callable = False, isMobxInjector = False, proto = ProtoOther, typeofSymbol = None,
      prototype = None, isReactClass = False, inheritsComponent = False,
      propTypes = Absent, defaultProps = Absent, isMobXReactObserver = False,
      methods = (\<lambda>name. Absent), accessors = {}, wraps = None\<rparr>"

text \<open>
  Modelled from the spec: \<^verbatim>\<open>patch\<close> of this module calls \<^verbatim>\<open>patch\<close> of \<^verbatim>\<open>./utils/utils\<close>,
  which is not among the sources, with the mixin's method of that name. The spec: the
  adapter "wraps" the lifecycle hook "to additionally" do the mixin's work and "does not
  alter return values". The slot then holds a function made of the previous slot and the
  mixin's method.
\<close>

definition patch :: "store \<Rightarrow> nat \<Rightarrow> string \<Rightarrow> store" where
  "patch s target funcName =
     updateObject s target
       (\<lambda>ob. ob\<lparr>methods := (methods ob)
                  (funcName := Patched (methods ob funcName) funcName)\<rparr>)"

text \<open>\<^verbatim>\<open>mixinLifecycleEvents\<close>, with the warnings it prints.\<close>

definition mixinLifecycleEvents :: "store \<Rightarrow> nat \<Rightarrow> warning list \<times> store" where
  "mixinLifecycleEvents s target =
     (let s1 = fold (\<lambda>funcName s'. patch s' target funcName)
                 [''componentDidMount'', ''componentWillUnmount'', ''componentDidUpdate''] s;
          scu = methods (objects s1 target) ''shouldComponentUpdate''
      in if \<not> slotTruthy scu then
           ([], updateObject s1 target
                  (\<lambda>ob. ob\<lparr>methods := (methods ob)
                             (''shouldComponentUpdate'' := ReactiveMixin ''shouldComponentUpdate'')\<rparr>))
         else if scu \<noteq> ReactiveMixin ''shouldComponentUpdate'' then
           ([WarnShouldComponentUpdate], s1)
         else ([], s1))"

text \<open>
  \<^verbatim>\<open>makeObservableProp\<close> on the prototype: the get/set pair is defined under that name. What
  the pair does on an instance is \<open>getProp\<close> and \<open>setProp\<close> above.
\<close>

definition makeObservableProp :: "store \<Rightarrow> nat \<Rightarrow> string \<Rightarrow> store" where
  "makeObservableProp s target propName =
     updateObject s target (\<lambda>ob. ob\<lparr>accessors := insert propName (accessors ob)\<rparr>)"

text \<open>
  The argument of \<^verbatim>\<open>observer\<close>: \<^verbatim>\<open>undefined\<close>, \<^verbatim>\<open>null\<close>, a falsy primitive (\<^verbatim>\<open>false\<close>,
  \<^verbatim>\<open>0\<close>, the empty string), or an object or function by its address. A truthy primitive
  is left out: it reaches \<^verbatim>\<open>patch\<close> of \<^verbatim>\<open>./utils/utils\<close>, whose behaviour on a primitive
  neither the sources nor the spec give.
\<close>

datatype observer_arg = ArgUndefined | ArgNull | ArgFalsyPrimitive | ArgObject nat

text \<open>
  What the transform throws: the \<^verbatim>\<open>TypeError\<close> of reading a property of \<^verbatim>\<open>undefined\<close> or
  \<^verbatim>\<open>null\<close>, \<^verbatim>\<open>Error("Please pass a valid component to 'observer'")\<close>, and
  \<^verbatim>\<open>Error("render property of ForwardRef was not a function")\<close>.
\<close>

datatype error = TypeError | InvalidComponent | ForwardRefRenderNotFunction

text \<open>
  The two tests of \<^verbatim>\<open>observer\<close> that come before the class path: the argument is one of
  the host's forward refs (\<open>ReactForwardRefSymbol\<close> is the module constant of that name,
  \<open>None\<close>, which is falsy, when the host has no \<^verbatim>\<open>forwardRef\<close>), and the argument "is
  function but doesn't seem to be a react class constructor".
\<close>

definition isForwardRef :: "nat option \<Rightarrow> classobj \<Rightarrow> bool" where
  "isForwardRef ReactForwardRefSymbol componentClass =
     (ReactForwardRefSymbol \<noteq> None \<and> typeofSymbol componentClass = ReactForwardRefSymbol)"

definition isFunctionComponent :: "store \<Rightarrow> classobj \<Rightarrow> bool" where
  "isFunctionComponent s componentClass =
     (callable componentClass \<and>
      (case prototype componentClass of
         None \<Rightarrow> True
       | Some p \<Rightarrow> \<not> slotTruthy (methods (objects s p) ''render'')) \<and>
      \<not> isReactClass componentClass \<and>
      \<not> inheritsComponent componentClass)"

text \<open>\<^verbatim>\<open>const target = componentClass.prototype || componentClass\<close>.\<close>

definition observerTarget :: "store \<Rightarrow> nat \<Rightarrow> nat" where
  "observerTarget s a = (case prototype (objects s a) of None \<Rightarrow> a | Some p \<Rightarrow> p)"

text \<open>
  \<^verbatim>\<open>observer\<close>. The result is the warnings printed, and the error thrown or the address
  returned with the store as the call leaves it. For \<^verbatim>\<open>undefined\<close> and \<^verbatim>\<open>null\<close> the first
  statement, which reads \<^verbatim>\<open>componentClass.isMobxInjector\<close>, throws; a falsy primitive has
  none of the properties read and fails the test \<^verbatim>\<open>if (!componentClass)\<close>.
  \<^verbatim>\<open>hoistStatics\<close> copies no property that is modelled here.
\<close>

definition observer ::
  "nat option \<Rightarrow> store \<Rightarrow> observer_arg \<Rightarrow> warning list \<times> (error + nat \<times> store)" where
  "observer ReactForwardRefSymbol s arg =
     (case arg of
        ArgUndefined \<Rightarrow> ([], Inl TypeError)
      | ArgNull \<Rightarrow> ([], Inl TypeError)
      | ArgFalsyPrimitive \<Rightarrow> ([], Inl InvalidComponent)
      | ArgObject a \<Rightarrow>
          let componentClass = objects s a;
              w1 = (if isMobxInjector componentClass then [WarnInjector] else []);
              w2 = (if proto componentClass = ProtoPureComponent then [WarnPureComponent] else [])
          in if isForwardRef ReactForwardRefSymbol componentClass then
               let baseRender = methods componentClass ''render''
               in if \<not> isFunction baseRender then (w1 @ w2, Inl ForwardRefRenderNotFunction)
                  else (w1 @ w2,
                        Inr (newObject s
                               (emptyObject\<lparr>typeofSymbol := ReactForwardRefSymbol,
                                  methods := (methods emptyObject)
                                    (''render'' := ObserverForwardRef baseRender)\<rparr>)))
             else if isFunctionComponent s componentClass then
               let (oc, s1) = newObject s (emptyObject\<lparr>wraps := Some a\<rparr>);
                   s2 = (if slotTruthy (propTypes componentClass)
                         then updateObject s1 oc (\<lambda>ob. ob\<lparr>propTypes := propTypes componentClass\<rparr>)
                         else s1);
                   s3 = (if slotTruthy (defaultProps componentClass)
                         then updateObject s2 oc (\<lambda>ob. ob\<lparr>defaultProps := defaultProps componentClass\<rparr>)
                         else s2);
                   s4 = updateObject s3 oc (\<lambda>ob. ob\<lparr>isMobXReactObserver := True\<rparr>)
               in (w1 @ w2, Inr (oc, s4))
             else
               let target = observerTarget s a;
                   (w3, s1) = mixinLifecycleEvents s target;
                   s2 = updateObject s1 a (\<lambda>ob. ob\<lparr>isMobXReactObserver := True\<rparr>);
                   s3 = makeObservableProp s2 target ''props'';
                   s4 = makeObservableProp s3 target ''state'';
                   baseRender = methods (objects s4 target) ''render'';
                   s5 = updateObject s4 target
                          (\<lambda>ob. ob\<lparr>methods := (methods ob)
                                     (''render'' := RenderWrapper baseRender)\<rparr>)
               in (w1 @ w2 @ w3, Inr (a, s5)))"

section \<open>The host and the application driving a component\<close>

text \<open>
  What can happen to a component instance from outside: the host calls its render, the
  host assigns its props or state, an observable of the application changes, the host
  unmounts it.
\<close>

datatype event =
    CallRender
  | Assign obsprop jsval
  | Change dep
  | Unmount

fun run :: "render_fn \<Rightarrow> globals \<Rightarrow> component \<Rightarrow> event list \<Rightarrow> globals \<times> component" where
  "run baseRender g c [] = (g, c)"
| "run baseRender g c (CallRender # evs) =
     (case callRender baseRender g c of (_, g', c') \<Rightarrow> run baseRender g' c' evs)"
| "run baseRender g c (Assign p v # evs) =
     (case setProp g c p v of (_, g', c') \<Rightarrow> run baseRender g' c' evs)"
| "run baseRender g c (Change d # evs) =
     (case dependencyChanged g c d of (_, g', c') \<Rightarrow> run baseRender g' c' evs)"
| "run baseRender g c (Unmount # evs) =
     (case reactiveMixin_componentWillUnmount g c of (g', c') \<Rightarrow> run baseRender g' c' evs)"

section \<open>Example inputs\<close>

text \<open>
  The module as loaded, a component instance as constructed, and the render functions of
  the spec's scenarios: a component that renders its props and reads one observable of the
  application, and a render that throws.
\<close>

definition initialGlobals :: globals where
  "initialGlobals =
     \<lparr>isDevtoolsEnabled = False, isUsingStaticRendering = False,
      componentByNodeRegistry = Some Map.empty, renderReporter = [], errorsReporter = [],
      consoleWarn = [], heap = (\<lambda>a. []), now = 0\<rparr>"

definition newComponent :: component where
  "newComponent =
     \<lparr>cid = 0, valueHolder = (\<lambda>p. JUndefined), atomHolder = (\<lambda>p. False),
      skipRender = False, isForcingUpdate = False, mobxIsUnmounted = False,
      reaction = None, isRenderingPending = False, componentWillReact = None,
      mobRenderStart = None, mobRenderEnd = None, forceUpdateCalls = 0,
      forceUpdateThrows = None, domNode = None, reportChangedCalls = []\<rparr>"

definition pizzaRender :: render_fn where
  "pizzaRender c = \<lparr>reads = [OwnAtom Props, External 0], completion = Inr (valueHolder c Props)\<rparr>"

definition throwingRender :: "jsval \<Rightarrow> render_fn" where
  "throwingRender e c = \<lparr>reads = [External 0], completion = Inl e\<rparr>"

text \<open>The pizza component with props \<open>1\<close>, after the host has rendered it once.\<close>

definition mountedPizza :: component where
  "mountedPizza =
     snd (snd (callRender pizzaRender initialGlobals
                 (newComponent\<lparr>valueHolder := (\<lambda>p. JNum 1)\<rparr>)))"

text \<open>
  A store with a class component (0, prototype 1), a class whose direct superclass is
  \<^verbatim>\<open>PureComponent\<close> and which has its own \<^verbatim>\<open>shouldComponentUpdate\<close> (2, prototype 3), and
  a forward ref whose \<^verbatim>\<open>render\<close> is not a function (4); the forward-ref symbol is 9.
\<close>

definition exampleStore :: store where
  "exampleStore =
     \<lparr>objects = (\<lambda>a. emptyObject)
        (0 := emptyObject\<lparr>callable := True, prototype := Some 1, inheritsComponent := True\<rparr>,
         1 := emptyObject\<lparr>methods := (\<lambda>name. Absent)(''render'' := UserFunction 0)\<rparr>,
         2 := emptyObject\<lparr>callable := True, proto := ProtoPureComponent, prototype := Some 3\<rparr>,
         3 := emptyObject\<lparr>methods := (\<lambda>name. Absent)
                 (''render'' := UserFunction 1,
                  ''shouldComponentUpdate'' := UserFunction 2)\<rparr>,
         4 := emptyObject\<lparr>typeofSymbol := Some 9,
                 methods := (\<lambda>name. Absent)(''render'' := NonFunction True)\<rparr>),
      nextFree = 5\<rparr>"

text \<open>
  Three props objects: the one the pizza component holds, another one with the same pizza,
  and one with the pizza incremented; and an instance that holds the first as its props
  and \<^verbatim>\<open>null\<close> as its state.
\<close>

definition pizzaHeap :: heap where
  "pizzaHeap =
     (\<lambda>a. [])(1 := [(''pizza'', JNum 1)], 2 := [(''pizza'', JNum 1)], 3 := [(''pizza'', JNum 2)])"

definition pizzaInstance :: component where
  "pizzaInstance = newComponent\<lparr>valueHolder := (\<lambda>p. JNull)(Props := JObj 1)\<rparr>"

section \<open>What the callback and the unmount handler leave alone\<close>

lemma unmount_frame:
  "reactiveMixin_componentWillUnmount g c = (g', c') \<Longrightarrow>
     valueHolder c' = valueHolder c \<and> reportChangedCalls c' = reportChangedCalls c \<and>
     forceUpdateCalls c' = forceUpdateCalls c \<and> skipRender c' = skipRender c \<and>
     isRenderingPending c' = isRenderingPending c \<and>
     isUsingStaticRendering g' = isUsingStaticRendering g \<and> heap g' = heap g"
  by (auto simp: reactiveMixin_componentWillUnmount_def findDOMNode_def Let_def
           split: if_splits option.splits)

lemma onInvalidate_frame:
  "onInvalidate g c = (t, g', c') \<Longrightarrow>
     valueHolder c' = valueHolder c \<and> reportChangedCalls c' = reportChangedCalls c"
  by (auto simp: onInvalidate_def runHook_def forceUpdate_def Let_def
           dest!: unmount_frame
           split: if_splits option.splits prod.splits)

lemma dependencyChanged_frame:
  "dependencyChanged g c d = (t, g', c') \<Longrightarrow>
     valueHolder c' = valueHolder c \<and> reportChangedCalls c' = reportChangedCalls c"
  by (auto simp: dependencyChanged_def dest: onInvalidate_frame split: option.splits if_splits)

lemma ownReads_frame:
  "reaction (ownReads c ds) = reaction c \<and> forceUpdateCalls (ownReads c ds) = forceUpdateCalls c \<and>
   isRenderingPending (ownReads c ds) = isRenderingPending c \<and>
   mobxIsUnmounted (ownReads c ds) = mobxIsUnmounted c"
  by (induction c ds rule: ownReads.induct) (simp_all add: getAtom_def)



lemma dependencyChanged_no_session:
  "reaction c = None \<or> (\<exists>r. reaction c = Some r \<and> isDisposed r) \<Longrightarrow>
     dependencyChanged g c d = (None, g, c)"
  by (auto simp: dependencyChanged_def)

lemma dependenciesChanged_no_session:
  "reaction c = None \<or> (\<exists>r. reaction c = Some r \<and> isDisposed r) \<Longrightarrow>
     dependenciesChanged g c ds = (g, c)"
  by (induction ds) (simp_all add: dependencyChanged_no_session)





lemma mountedPizza_eq:
  "mountedPizza =
     newComponent\<lparr>valueHolder := (\<lambda>p. JNum 1), atomHolder := (\<lambda>p. False)(Props := True),
       reaction := Some \<lparr>isDisposed = False, observing = [OwnAtom Props, External 0]\<rparr>\<rparr>"
  by (simp add: mountedPizza_def callRender_def makeComponentReactive_def reactiveRender_def
        beginRender_def newComponent_def initialGlobals_def pizzaRender_def getAtom_def Let_def)

section \<open>Writes to the props and state cells\<close>

text \<open>
  Claim C1. Every write \<open>v\<close> to the props or state cell stores \<open>v\<close>. When the "is forcing
  update" flag is set or \<open>v\<close> is shallow-equal to the stored value, nothing else happens:
  \<^verbatim>\<open>reportChanged\<close> is not called, and the setter's whole effect is the stored value.
  Otherwise \<^verbatim>\<open>reportChanged\<close> of the cell's atom has been called exactly once more when the
  setter is left (by returning, or by an exception of the notification: \<open>t\<close>).
\<close>

theorem setProp_notifies:
  assumes "setProp g c p v = (t, g', c')"
  shows "valueHolder c' p = v \<and>
         (if isForcingUpdate c \<or> shallowEqual (heap g) (valueHolder c p) v
          then reportChangedCalls c' = reportChangedCalls c \<and> t = None \<and> g' = g \<and>
               c' = c\<lparr>valueHolder := (valueHolder c)(p := v)\<rparr>
          else reportChangedCalls c' = reportChangedCalls c @ [p])"
  using assms
  by (auto simp: setProp_def reportChanged_def getAtom_def Let_def
           dest!: dependencyChanged_frame
           split: if_splits option.splits prod.splits)

text \<open>
  The pizza component holds props \<open>1\<close>: writing \<open>2\<close> notifies once, writing \<open>1\<close> again
  does not notify.
\<close>

theorem setProp_notifies_witness:
  "valueHolder (snd (snd (setProp initialGlobals mountedPizza Props (JNum 2)))) Props = JNum 2 \<and>
   reportChangedCalls (snd (snd (setProp initialGlobals mountedPizza Props (JNum 2)))) = [Props] \<and>
   valueHolder (snd (snd (setProp initialGlobals mountedPizza Props (JNum 1)))) Props = JNum 1 \<and>
   reportChangedCalls (snd (snd (setProp initialGlobals mountedPizza Props (JNum 1)))) = []"
proof -
  have a: "setProp initialGlobals mountedPizza Props (JNum 2) =
      (fst (setProp initialGlobals mountedPizza Props (JNum 2)),
       fst (snd (setProp initialGlobals mountedPizza Props (JNum 2))),
       snd (snd (setProp initialGlobals mountedPizza Props (JNum 2))))"
    by simp
  have b: "setProp initialGlobals mountedPizza Props (JNum 1) =
      (fst (setProp initialGlobals mountedPizza Props (JNum 1)),
       fst (snd (setProp initialGlobals mountedPizza Props (JNum 1))),
       snd (snd (setProp initialGlobals mountedPizza Props (JNum 1))))"
    by simp
  have c: "\<not> isForcingUpdate mountedPizza" "valueHolder mountedPizza Props = JNum 1"
    "reportChangedCalls mountedPizza = []"
    by (simp_all add: mountedPizza_eq newComponent_def)
  have d: "\<not> shallowEqual (heap initialGlobals) (JNum 1) (JNum 2)"
    "shallowEqual (heap initialGlobals) (JNum 1) (JNum 1)"
    by (simp_all add: shallowEqual_def)
  from setProp_notifies [OF a] setProp_notifies [OF b] c d show ?thesis
    by simp
qed

section \<open>Coalescing of notifications\<close>




text \<open>
  A \<^verbatim>\<open>componentWillReact\<close> that throws: the first change sets the flag, the exception
  leaves the callback, and \<^verbatim>\<open>forceUpdate\<close> is not called, for this change or a later one.
\<close>

lemma throwing_hook_requests_nothing:
  "fst (dependencyChanged initialGlobals
     (mountedPizza\<lparr>componentWillReact := Some \<lparr>hookUnmounts = False, hookThrows = Some (JStr ''boom'')\<rparr>\<rparr>)
     (External 0)) = Some (JStr ''boom'') \<and>
   isRenderingPending (snd (dependenciesChanged initialGlobals
     (mountedPizza\<lparr>componentWillReact := Some \<lparr>hookUnmounts = False, hookThrows = Some (JStr ''boom'')\<rparr>\<rparr>)
     [External 0, External 0])) \<and>
   forceUpdateCalls (snd (dependenciesChanged initialGlobals
     (mountedPizza\<lparr>componentWillReact := Some \<lparr>hookUnmounts = False, hookThrows = Some (JStr ''boom'')\<rparr>\<rparr>)
     [External 0, External 0])) = 0"
  by (simp add: mountedPizza_eq newComponent_def initialGlobals_def dependencyChanged_def
        onInvalidate_def runHook_def Let_def)

section \<open>A render that throws\<close>

text \<open>
  When the render logic throws a truthy value \<open>e\<close> (every \<^verbatim>\<open>Error\<close> object is one), the
  tracked render disposes the session, emits \<open>e\<close> on \<^verbatim>\<open>errorsReporter\<close> and throws \<open>e\<close>
  to its caller; afterwards no change of an observable reaches the component.
\<close>

lemma truthy_throw_is_reported:
  assumes "\<And>c'. completion (baseRender c') = Inl e" and "truthy e"
      and "reactiveRender baseRender g c = (res, g', c')"
  shows "res = Inl e \<and> errorsReporter g' = errorsReporter g @ [e] \<and>
         (reaction c' = None \<or> (\<exists>r. reaction c' = Some r \<and> isDisposed r)) \<and>
         (\<forall>ds. dependenciesChanged g' c' ds = (g', c'))"
proof -
  from assms have a: "res = Inl e" "errorsReporter g' = errorsReporter g @ [e]"
    "reaction c' = None \<or> (\<exists>r. reaction c' = Some r \<and> isDisposed r)"
    by (auto simp: reactiveRender_def Let_def dispose_def split: option.splits if_splits)
  then show ?thesis by (simp add: dependenciesChanged_no_session)
qed

text \<open>
  Claim C3 at a render that executes \<^verbatim>\<open>throw null\<close>. The test \<^verbatim>\<open>if (exception)\<close> takes the
  thrown \<^verbatim>\<open>null\<close> for "no exception": the first render of a new component returns
  \<^verbatim>\<open>undefined\<close> instead of throwing, nothing is emitted on \<^verbatim>\<open>errorsReporter\<close>, the session
  stays live, and a later change of the observable the render read calls \<^verbatim>\<open>forceUpdate\<close>.
\<close>

theorem falsy_throw_is_swallowed:
  "fst (makeComponentReactive (throwingRender JNull) initialGlobals newComponent) = Inr JUndefined \<and>
   errorsReporter (fst (snd (makeComponentReactive (throwingRender JNull) initialGlobals newComponent))) = [] \<and>
   reaction (snd (snd (makeComponentReactive (throwingRender JNull) initialGlobals newComponent)))
     = Some \<lparr>isDisposed = False, observing = [External 0]\<rparr> \<and>
   forceUpdateCalls (snd (dependenciesChanged initialGlobals
      (snd (snd (makeComponentReactive (throwingRender JNull) initialGlobals newComponent)))
      [External 0])) = 1"
  by (simp add: makeComponentReactive_def reactiveRender_def beginRender_def throwingRender_def
        initialGlobals_def newComponent_def Let_def dependencyChanged_def onInvalidate_def
        forceUpdate_def)

section \<open>Unmounting\<close>

text \<open>
  Once the unmounted mark is set it stays set, and nothing that can happen to the component
  calls \<^verbatim>\<open>forceUpdate\<close>: not a change (should one still be delivered), not an assignment,
  not a render.
\<close>

lemma unmounted_step:
  assumes "mobxIsUnmounted c"
  shows "mobxIsUnmounted (snd (snd (callRender baseRender g c))) \<and>
         forceUpdateCalls (snd (snd (callRender baseRender g c))) = forceUpdateCalls c"
    and "mobxIsUnmounted (snd (snd (onInvalidate g c))) \<and>
         forceUpdateCalls (snd (snd (onInvalidate g c))) = forceUpdateCalls c"
    and "mobxIsUnmounted (snd (reactiveMixin_componentWillUnmount g c)) \<and>
         forceUpdateCalls (snd (reactiveMixin_componentWillUnmount g c)) = forceUpdateCalls c"
proof -
  show u: "mobxIsUnmounted (snd (reactiveMixin_componentWillUnmount g c)) \<and>
         forceUpdateCalls (snd (reactiveMixin_componentWillUnmount g c)) = forceUpdateCalls c"
    for g
    using assms
    by (simp add: reactiveMixin_componentWillUnmount_def findDOMNode_def Let_def)
  show "mobxIsUnmounted (snd (snd (callRender baseRender g c))) \<and>
         forceUpdateCalls (snd (snd (callRender baseRender g c))) = forceUpdateCalls c"
    using assms
    by (simp add: callRender_def makeComponentReactive_def reactiveRender_def beginRender_def
          Let_def ownReads_frame split: option.splits)
  show "mobxIsUnmounted (snd (snd (onInvalidate g c))) \<and>
         forceUpdateCalls (snd (snd (onInvalidate g c))) = forceUpdateCalls c"
    using assms
    by (auto simp: onInvalidate_def runHook_def reactiveMixin_componentWillUnmount_def
          findDOMNode_def Let_def split: option.splits)
qed

lemma unmounted_change:
  assumes "mobxIsUnmounted c"
  shows "mobxIsUnmounted (snd (snd (dependencyChanged g c d))) \<and>
         forceUpdateCalls (snd (snd (dependencyChanged g c d))) = forceUpdateCalls c"
  using assms unmounted_step(2) [OF assms, of g]
  by (simp add: dependencyChanged_def split: option.splits)

lemma unmounted_assign:
  assumes "mobxIsUnmounted c"
  shows "mobxIsUnmounted (snd (snd (setProp g c p v))) \<and>
         forceUpdateCalls (snd (snd (setProp g c p v))) = forceUpdateCalls c"
proof -
  let ?c = "(getAtom (c\<lparr>valueHolder := (valueHolder c)(p := v), skipRender := True\<rparr>) p)
              \<lparr>reportChangedCalls := reportChangedCalls c @ [p]\<rparr>"
  have "mobxIsUnmounted ?c" "forceUpdateCalls ?c = forceUpdateCalls c"
    using assms by (simp_all add: getAtom_def)
  with unmounted_change [of ?c g "OwnAtom p"]
  have "mobxIsUnmounted (snd (snd (dependencyChanged g ?c (OwnAtom p)))) \<and>
        forceUpdateCalls (snd (snd (dependencyChanged g ?c (OwnAtom p)))) = forceUpdateCalls c"
    by simp
  then show ?thesis
    using assms
    by (cases "dependencyChanged g ?c (OwnAtom p)")
       (auto simp: setProp_def reportChanged_def getAtom_def Let_def split: option.splits)
qed

lemma unmounted_run:
  assumes "mobxIsUnmounted c"
  shows "forceUpdateCalls (snd (run baseRender g c evs)) = forceUpdateCalls c"
  using assms
proof (induction evs arbitrary: g c)
  case Nil
  then show ?case by simp
next
  case (Cons ev evs)
  show ?case
  proof (cases ev)
    case CallRender
    obtain x g1 c1 where r: "callRender baseRender g c = (x, g1, c1)"
      by (cases "callRender baseRender g c") auto
    with unmounted_step(1) [OF Cons.prems, of baseRender g]
    have "mobxIsUnmounted c1" "forceUpdateCalls c1 = forceUpdateCalls c" by simp_all
    with Cons.IH [of c1 g1] r CallRender show ?thesis by simp
  next
    case (Assign p v)
    obtain x g1 c1 where r: "setProp g c p v = (x, g1, c1)"
      by (cases "setProp g c p v") auto
    with unmounted_assign [OF Cons.prems, of g p v]
    have "mobxIsUnmounted c1" "forceUpdateCalls c1 = forceUpdateCalls c" by simp_all
    with Cons.IH [of c1 g1] r Assign show ?thesis by simp
  next
    case (Change d)
    obtain x g1 c1 where r: "dependencyChanged g c d = (x, g1, c1)"
      by (cases "dependencyChanged g c d") auto
    with unmounted_change [OF Cons.prems, of g d]
    have "mobxIsUnmounted c1" "forceUpdateCalls c1 = forceUpdateCalls c" by simp_all
    with Cons.IH [of c1 g1] r Change show ?thesis by simp
  next
    case Unmount
    obtain g1 c1 where r: "reactiveMixin_componentWillUnmount g c = (g1, c1)"
      by (cases "reactiveMixin_componentWillUnmount g c") auto
    with unmounted_step(3) [OF Cons.prems, of g]
    have "mobxIsUnmounted c1" "forceUpdateCalls c1 = forceUpdateCalls c" by simp_all
    with Cons.IH [of c1 g1] r Unmount show ?thesis by simp
  qed
qed

text \<open>
  Claim C4. Outside static-rendering mode, \<^verbatim>\<open>componentWillUnmount\<close> marks the component
  unmounted and disposes the session when there is one; when there is none (the render has
  no reaction attached) it does the rest all the same. Afterwards any batch of changes
  leaves the state as it is, so \<^verbatim>\<open>forceUpdate\<close> is never called again, and running the
  handler once more leaves the component as it is. The last conjunct: whatever the host and
  the application then do to the component, \<^verbatim>\<open>forceUpdate\<close> is not called.
\<close>

theorem unmount_is_terminal:
  assumes "\<not> isUsingStaticRendering g"
      and "reactiveMixin_componentWillUnmount g c = (g', c')"
  shows "mobxIsUnmounted c' \<and>
         reaction c' = (case reaction c of None \<Rightarrow> None | Some r \<Rightarrow> Some (dispose r)) \<and>
         (\<forall>ds. dependenciesChanged g' c' ds = (g', c')) \<and>
         (\<forall>ds. forceUpdateCalls (snd (dependenciesChanged g' c' ds)) = forceUpdateCalls c) \<and>
         snd (reactiveMixin_componentWillUnmount g' c') = c' \<and>
         (\<forall>baseRender evs. forceUpdateCalls (snd (run baseRender g' c' evs)) = forceUpdateCalls c)"
proof -
  from assms have u: "mobxIsUnmounted c'"
    and r: "reaction c' = (case reaction c of None \<Rightarrow> None | Some r \<Rightarrow> Some (dispose r))"
    and f: "forceUpdateCalls c' = forceUpdateCalls c"
    and s: "\<not> isUsingStaticRendering g'"
    by (auto simp: reactiveMixin_componentWillUnmount_def findDOMNode_def Let_def
             split: if_splits option.splits)
  from r have "reaction c' = None \<or> (\<exists>r. reaction c' = Some r \<and> isDisposed r)"
    by (auto simp: dispose_def split: option.splits)
  then have quiet: "\<forall>ds. dependenciesChanged g' c' ds = (g', c')"
    by (simp add: dependenciesChanged_no_session)
  have again: "snd (reactiveMixin_componentWillUnmount g' c') = c'"
    using u s r
    by (cases "reaction c")
       (auto simp: reactiveMixin_componentWillUnmount_def findDOMNode_def Let_def dispose_def
             split: option.splits)
  have later: "\<forall>baseRender evs. forceUpdateCalls (snd (run baseRender g' c' evs)) = forceUpdateCalls c"
    using unmounted_run [OF u] f by simp
  show ?thesis using u r f quiet again later by simp
qed

text \<open>
  The mounted pizza component is unmounted: its session is disposed and three changes call
  \<^verbatim>\<open>forceUpdate\<close> no more. A component that never rendered has no session and is unmounted
  too.
\<close>

theorem unmount_is_terminal_witness:
  "mobxIsUnmounted (snd (reactiveMixin_componentWillUnmount initialGlobals mountedPizza)) \<and>
   reaction (snd (reactiveMixin_componentWillUnmount initialGlobals mountedPizza)) =
     Some \<lparr>isDisposed = True, observing = [OwnAtom Props, External 0]\<rparr> \<and>
   forceUpdateCalls (snd (dependenciesChanged
      (fst (reactiveMixin_componentWillUnmount initialGlobals mountedPizza))
      (snd (reactiveMixin_componentWillUnmount initialGlobals mountedPizza))
      [External 0, OwnAtom Props, External 0])) = 0 \<and>
   mobxIsUnmounted (snd (reactiveMixin_componentWillUnmount initialGlobals newComponent)) \<and>
   reaction (snd (reactiveMixin_componentWillUnmount initialGlobals newComponent)) = None"
proof -
  define U where "U = reactiveMixin_componentWillUnmount initialGlobals mountedPizza"
  define V where "V = reactiveMixin_componentWillUnmount initialGlobals newComponent"
  have s: "\<not> isUsingStaticRendering initialGlobals"
    by (simp add: initialGlobals_def)
  have u: "reactiveMixin_componentWillUnmount initialGlobals mountedPizza = (fst U, snd U)"
    unfolding U_def by (rule prod.collapse [symmetric])
  have v: "reactiveMixin_componentWillUnmount initialGlobals newComponent = (fst V, snd V)"
    unfolding V_def by (rule prod.collapse [symmetric])
  have m: "reaction mountedPizza = Some \<lparr>isDisposed = False, observing = [OwnAtom Props, External 0]\<rparr>"
    "forceUpdateCalls mountedPizza = 0" "reaction newComponent = None"
    by (simp_all add: mountedPizza_eq newComponent_def)
  note tu = unmount_is_terminal [OF s u] and tv = unmount_is_terminal [OF s v]
  have 1: "mobxIsUnmounted (snd U)" by (rule tu [THEN conjunct1])
  have 2: "reaction (snd U) = Some \<lparr>isDisposed = True, observing = [OwnAtom Props, External 0]\<rparr>"
    using tu [THEN conjunct2, THEN conjunct1] m by (simp add: dispose_def)
  have 3: "forceUpdateCalls (snd (dependenciesChanged (fst U) (snd U)
             [External 0, OwnAtom Props, External 0])) = 0"
    using tu [THEN conjunct2, THEN conjunct2, THEN conjunct2, THEN conjunct1, rule_format,
              of "[External 0, OwnAtom Props, External 0]"] m(2)
    by (simp only:)
  have 4: "mobxIsUnmounted (snd V)" by (rule tv [THEN conjunct1])
  have 5: "reaction (snd V) = None"
    using tv [THEN conjunct2, THEN conjunct1] m(3) by simp
  from 1 2 3 4 5 show ?thesis
    by (simp only: U_def V_def simp_thms)
qed

text \<open>
  Claim C10. With the static-rendering flag set, \<^verbatim>\<open>componentWillUnmount\<close> returns at once:
  module state and component are what they were. The component is not marked unmounted,
  its session is not touched, and nothing is emitted on \<^verbatim>\<open>renderReporter\<close>, whether or
  not devtools are enabled.
\<close>

theorem unmount_static_noop:
  assumes "isUsingStaticRendering g"
  shows "reactiveMixin_componentWillUnmount g c = (g, c) \<and>
         mobxIsUnmounted (snd (reactiveMixin_componentWillUnmount g c)) = mobxIsUnmounted c \<and>
         reaction (snd (reactiveMixin_componentWillUnmount g c)) = reaction c \<and>
         renderReporter (fst (reactiveMixin_componentWillUnmount g c)) = renderReporter g"
  using assms by (simp add: reactiveMixin_componentWillUnmount_def)

text \<open>Devtools enabled, static rendering switched on, the mounted pizza component.\<close>

theorem unmount_static_noop_witness:
  "reactiveMixin_componentWillUnmount
     (useStaticRendering (initialGlobals\<lparr>isDevtoolsEnabled := True\<rparr>) True) mountedPizza =
   (useStaticRendering (initialGlobals\<lparr>isDevtoolsEnabled := True\<rparr>) True, mountedPizza) \<and>
   isDevtoolsEnabled (useStaticRendering (initialGlobals\<lparr>isDevtoolsEnabled := True\<rparr>) True) \<and>
   \<not> mobxIsUnmounted mountedPizza"
proof -
  have s: "isUsingStaticRendering (useStaticRendering (initialGlobals\<lparr>isDevtoolsEnabled := True\<rparr>) True)"
    by (simp add: useStaticRendering_def)
  have d: "isDevtoolsEnabled (useStaticRendering (initialGlobals\<lparr>isDevtoolsEnabled := True\<rparr>) True)"
    by (simp add: useStaticRendering_def)
  have m: "\<not> mobxIsUnmounted mountedPizza"
    by (simp add: mountedPizza_eq newComponent_def)
  from unmount_static_noop [OF s, of mountedPizza, THEN conjunct1] d m show ?thesis
    by (simp only: simp_thms)
qed

section \<open>Static rendering\<close>

lemma static_step:
  assumes "isUsingStaticRendering g" and "reaction c = None"
  shows "callRender baseRender g c = (completion (baseRender c), g, ownReads c (reads (baseRender c)))"
    and "\<exists>t c'. setProp g c p v = (t, g, c') \<and> reaction c' = None \<and> forceUpdateCalls c' = forceUpdateCalls c"
    and "dependencyChanged g c d = (None, g, c)"
    and "reactiveMixin_componentWillUnmount g c = (g, c)"
  using assms
  by (auto simp: callRender_def makeComponentReactive_def Let_def setProp_def reportChanged_def
        getAtom_def dependencyChanged_def reactiveMixin_componentWillUnmount_def)

lemma static_run:
  assumes "isUsingStaticRendering g" and "reaction c = None"
  shows "fst (run baseRender g c evs) = g \<and> reaction (snd (run baseRender g c evs)) = None \<and>
         forceUpdateCalls (snd (run baseRender g c evs)) = forceUpdateCalls c"
  using assms
proof (induction evs arbitrary: c)
  case Nil
  then show ?case by simp
next
  case (Cons ev evs)
  show ?case
  proof (cases ev)
    case CallRender
    with Cons show ?thesis by (simp add: static_step(1) ownReads_frame)
  next
    case (Assign p v)
    from static_step(2) [OF Cons.prems, of p v] obtain t c' where
      "setProp g c p v = (t, g, c')" "reaction c' = None" "forceUpdateCalls c' = forceUpdateCalls c"
      by blast
    with Cons Assign show ?thesis by simp
  next
    case (Change d)
    with Cons show ?thesis by (simp add: static_step(3))
  next
    case Unmount
    with Cons show ?thesis by (simp add: static_step(4))
  qed
qed

text \<open>
  Claim C5, as the code has it. With the static-rendering flag set, the prototype's render
  wrapper (\<^verbatim>\<open>makeComponentReactive\<close>) is the original render: it returns or throws what
  that does, changes no module state and creates no session (the component's own atoms
  that the render reads are created, nothing else changes). A component that has no
  session from a render before the flag was set therefore never gets one, whatever happens
  to it: renders, assignments of props and state, changes of observables, unmounting; and
  \<^verbatim>\<open>forceUpdate\<close> is never called.
\<close>

theorem static_rendering_never_tracks:
  assumes "isUsingStaticRendering g"
  shows "makeComponentReactive baseRender g c =
           (completion (baseRender c), g, ownReads c (reads (baseRender c))) \<and>
         reaction (snd (snd (makeComponentReactive baseRender g c))) = reaction c \<and>
         (reaction c = None \<longrightarrow>
            (\<forall>evs. reaction (snd (run baseRender g c evs)) = None \<and>
                   forceUpdateCalls (snd (run baseRender g c evs)) = forceUpdateCalls c))"
  using assms static_run [OF assms]
  by (simp add: makeComponentReactive_def Let_def ownReads_frame)

text \<open>
  Static rendering switched on, a new pizza component: the render returns what the original
  render returns, and after two renders, an assignment of props and three changes there is
  still no session and no call of \<^verbatim>\<open>forceUpdate\<close>.
\<close>

theorem static_rendering_never_tracks_witness:
  "fst (makeComponentReactive pizzaRender (useStaticRendering initialGlobals True) newComponent) =
     Inr JUndefined \<and>
   reaction (snd (snd (makeComponentReactive pizzaRender
      (useStaticRendering initialGlobals True) newComponent))) = None \<and>
   reaction (snd (run pizzaRender (useStaticRendering initialGlobals True) newComponent
      [CallRender, Change (External 0), Assign Props (JNum 3), Change (OwnAtom Props),
       CallRender, Change (External 0)])) = None \<and>
   forceUpdateCalls (snd (run pizzaRender (useStaticRendering initialGlobals True) newComponent
      [CallRender, Change (External 0), Assign Props (JNum 3), Change (OwnAtom Props),
       CallRender, Change (External 0)])) = 0"
proof -
  let ?g = "useStaticRendering initialGlobals True"
  let ?evs = "[CallRender, Change (External 0), Assign Props (JNum 3), Change (OwnAtom Props),
       CallRender, Change (External 0)]"
  have s: "isUsingStaticRendering ?g"
    by (simp add: useStaticRendering_def)
  have n: "reaction newComponent = None" "forceUpdateCalls newComponent = 0"
    "completion (pizzaRender newComponent) = Inr JUndefined"
    by (simp_all add: newComponent_def pizzaRender_def)
  note th = static_rendering_never_tracks [OF s, of pizzaRender newComponent]
  have 1: "fst (makeComponentReactive pizzaRender ?g newComponent) = Inr JUndefined"
    using th [THEN conjunct1] n(3) by simp
  have 2: "reaction (snd (snd (makeComponentReactive pizzaRender ?g newComponent))) = None"
    using th [THEN conjunct2, THEN conjunct1] n(1) by (simp only:)
  from th [THEN conjunct2, THEN conjunct2, rule_format, OF n(1), of ?evs] n(2)
  have 3: "reaction (snd (run pizzaRender ?g newComponent ?evs)) = None \<and>
           forceUpdateCalls (snd (run pizzaRender ?g newComponent ?evs)) = 0"
    by (simp only:)
  from 1 2 3 show ?thesis by (simp only: simp_thms)
qed

text \<open>
  Claim C5 as stated fails. The flag is tested in the prototype's wrapper alone; an instance
  that has rendered once owns \<^verbatim>\<open>reactiveRender\<close>, which does not read it. The pizza
  component was mounted before \<^verbatim>\<open>useStaticRendering(true)\<close>: with the flag set its render
  still tracks (the session stays live and records what was read), and a change of the
  observable it read calls \<^verbatim>\<open>forceUpdate\<close>.
\<close>

theorem static_flag_after_mount_still_rerenders:
  "isUsingStaticRendering (useStaticRendering initialGlobals True) \<and>
   forceUpdateCalls mountedPizza = 0 \<and>
   reaction (snd (snd (callRender pizzaRender (useStaticRendering initialGlobals True) mountedPizza)))
     = Some \<lparr>isDisposed = False, observing = [OwnAtom Props, External 0]\<rparr> \<and>
   forceUpdateCalls (snd (run pizzaRender (useStaticRendering initialGlobals True) mountedPizza
      [Change (External 0)])) = 1 \<and>
   forceUpdateCalls (snd (run pizzaRender (useStaticRendering initialGlobals True) mountedPizza
      [CallRender, Change (External 0)])) = 1"
  by (simp add: mountedPizza_eq newComponent_def initialGlobals_def useStaticRendering_def
        callRender_def reactiveRender_def beginRender_def pizzaRender_def getAtom_def
        dependencyChanged_def onInvalidate_def forceUpdate_def Let_def)

section \<open>The paths of the transform\<close>

text \<open>What \<^verbatim>\<open>mixinLifecycleEvents\<close> leaves in the store, and what it prints.\<close>

lemma mixinLifecycleEvents_store:
  "snd (mixinLifecycleEvents s t) =
     s\<lparr>objects := (objects s)
          (t := (objects s t)\<lparr>methods := (methods (objects s t))
             (''componentDidMount'' := Patched (methods (objects s t) ''componentDidMount'') ''componentDidMount'',
              ''componentWillUnmount'' := Patched (methods (objects s t) ''componentWillUnmount'') ''componentWillUnmount'',
              ''componentDidUpdate'' := Patched (methods (objects s t) ''componentDidUpdate'') ''componentDidUpdate'',
              ''shouldComponentUpdate'' :=
                 (if slotTruthy (methods (objects s t) ''shouldComponentUpdate'')
                  then methods (objects s t) ''shouldComponentUpdate''
                  else ReactiveMixin ''shouldComponentUpdate''))\<rparr>)\<rparr>"
  by (auto simp: mixinLifecycleEvents_def patch_def updateObject_def Let_def fun_upd_twist
        intro!: arg_cong [where f = "\<lambda>m. s\<lparr>objects := m\<rparr>"])

lemma mixinLifecycleEvents_warnings:
  "fst (mixinLifecycleEvents s t) =
     (if slotTruthy (methods (objects s t) ''shouldComponentUpdate'') \<and>
         methods (objects s t) ''shouldComponentUpdate'' \<noteq> ReactiveMixin ''shouldComponentUpdate''
      then [WarnShouldComponentUpdate] else [])"
  by (auto simp: mixinLifecycleEvents_def patch_def updateObject_def Let_def)

text \<open>
  The class path of \<^verbatim>\<open>observer\<close>: the argument is neither a forward ref nor taken for a
  function component.
\<close>

lemma observer_class_path:
  assumes "\<not> isForwardRef RFS (objects s a)" and "\<not> isFunctionComponent s (objects s a)"
  shows "\<exists>s'. observer RFS s (ArgObject a) =
           ((if isMobxInjector (objects s a) then [WarnInjector] else []) @
            (if proto (objects s a) = ProtoPureComponent then [WarnPureComponent] else []) @
            fst (mixinLifecycleEvents s (observerTarget s a)),
            Inr (a, s')) \<and>
          nextFree s' = nextFree s \<and>
          (\<forall>b. b \<noteq> a \<and> b \<noteq> observerTarget s a \<longrightarrow> objects s' b = objects s b) \<and>
          isMobXReactObserver (objects s' a) \<and>
          accessors (objects s' (observerTarget s a)) =
            insert ''props'' (insert ''state'' (accessors (objects s (observerTarget s a)))) \<and>
          methods (objects s' (observerTarget s a)) =
            (methods (objects (snd (mixinLifecycleEvents s (observerTarget s a))) (observerTarget s a)))
              (''render'' := RenderWrapper (methods (objects s (observerTarget s a)) ''render''))"
  using assms
  by (auto simp: observer_def Let_def split_beta mixinLifecycleEvents_store
        makeObservableProp_def updateObject_def)

text \<open>The other two paths, and the warnings of all three.\<close>

lemma observer_results:
  "isForwardRef RFS (objects s a) \<Longrightarrow> \<not> isFunction (methods (objects s a) ''render'') \<Longrightarrow>
     snd (observer RFS s (ArgObject a)) = Inl ForwardRefRenderNotFunction"
  "isForwardRef RFS (objects s a) \<Longrightarrow> isFunction (methods (objects s a) ''render'') \<Longrightarrow>
     \<exists>s'. snd (observer RFS s (ArgObject a)) = Inr (nextFree s, s')"
  "\<not> isForwardRef RFS (objects s a) \<Longrightarrow> isFunctionComponent s (objects s a) \<Longrightarrow>
     \<exists>s'. snd (observer RFS s (ArgObject a)) = Inr (nextFree s, s')"
  "fst (observer RFS s (ArgObject a)) =
     (if isMobxInjector (objects s a) then [WarnInjector] else []) @
     (if proto (objects s a) = ProtoPureComponent then [WarnPureComponent] else []) @
     (if isForwardRef RFS (objects s a) \<or> isFunctionComponent s (objects s a) then []
      else fst (mixinLifecycleEvents s (observerTarget s a)))"
  by (auto simp: observer_def Let_def split_beta newObject_def)

lemma observer_class_result:
  assumes "\<not> isForwardRef RFS (objects s a)" and "\<not> isFunctionComponent s (objects s a)"
  shows "\<exists>s'. snd (observer RFS s (ArgObject a)) = Inr (a, s') \<and> isMobXReactObserver (objects s' a)"
proof -
  from observer_class_path [OF assms] obtain s' where
    "observer RFS s (ArgObject a) =
           ((if isMobxInjector (objects s a) then [WarnInjector] else []) @
            (if proto (objects s a) = ProtoPureComponent then [WarnPureComponent] else []) @
            fst (mixinLifecycleEvents s (observerTarget s a)),
            Inr (a, s'))" and "isMobXReactObserver (objects s' a)"
    by blast
  then have "snd (observer RFS s (ArgObject a)) = Inr (a, s') \<and> isMobXReactObserver (objects s' a)"
    by simp
  then show ?thesis ..
qed

lemma exampleStore_facts:
  "\<not> isForwardRef (Some 9) (objects exampleStore 0)" "\<not> isFunctionComponent exampleStore (objects exampleStore 0)"
  "\<not> isForwardRef (Some 9) (objects exampleStore 2)" "\<not> isFunctionComponent exampleStore (objects exampleStore 2)"
  "isForwardRef (Some 9) (objects exampleStore 4)" "\<not> isFunction (methods (objects exampleStore 4) ''render'')"
  "proto (objects exampleStore 2) = ProtoPureComponent"
  "observerTarget exampleStore 0 = 1" "observerTarget exampleStore 2 = 3"
  by (simp_all add: exampleStore_def emptyObject_def isForwardRef_def isFunctionComponent_def
        observerTarget_def)

lemma exampleStore_slots:
  "methods (objects exampleStore 1) ''shouldComponentUpdate'' = Absent"
  "methods (objects exampleStore 3) ''shouldComponentUpdate'' = UserFunction 2"
  "methods (objects exampleStore 1) ''render'' = UserFunction 0"
  "methods (objects exampleStore 1) ''componentWillUnmount'' = Absent"
  "accessors (objects exampleStore 1) = {}"
  "callable (objects exampleStore 0)" "prototype (objects exampleStore 0) = Some 1"
  "nextFree exampleStore = 5"
  by (simp_all add: exampleStore_def emptyObject_def)

section \<open>Invalid arguments of the transform\<close>

text \<open>
  Claim C8. \<^verbatim>\<open>observer(undefined)\<close> and \<^verbatim>\<open>observer(null)\<close> throw (the \<^verbatim>\<open>TypeError\<close> of the
  first property read), and so does \<^verbatim>\<open>observer\<close> of a forward ref whose \<^verbatim>\<open>render\<close> is
  not a function: the call yields an error and no component.
\<close>

theorem invalid_input_raises:
  assumes "arg = ArgUndefined \<or> arg = ArgNull \<or>
           (\<exists>a. arg = ArgObject a \<and> isForwardRef RFS (objects s a) \<and>
                \<not> isFunction (methods (objects s a) ''render''))"
  shows "snd (observer RFS s arg) =
           Inl (if arg = ArgUndefined \<or> arg = ArgNull then TypeError
                else ForwardRefRenderNotFunction)"
  using assms by (auto simp: observer_results(1)) (simp_all add: observer_def)

text \<open>The example store: \<^verbatim>\<open>undefined\<close>, \<^verbatim>\<open>null\<close>, and the forward ref at address 4.\<close>

theorem invalid_input_raises_witness:
  "snd (observer (Some 9) exampleStore ArgUndefined) = Inl TypeError \<and>
   snd (observer (Some 9) exampleStore ArgNull) = Inl TypeError \<and>
   snd (observer (Some 9) exampleStore (ArgObject 4)) = Inl ForwardRefRenderNotFunction"
proof -
  have a: "ArgUndefined = ArgUndefined \<or> ArgUndefined = ArgNull \<or>
           (\<exists>a. ArgUndefined = ArgObject a \<and> isForwardRef (Some 9) (objects exampleStore a) \<and>
                \<not> isFunction (methods (objects exampleStore a) ''render''))"
    by simp
  have b: "ArgNull = ArgUndefined \<or> ArgNull = ArgNull \<or>
           (\<exists>a. ArgNull = ArgObject a \<and> isForwardRef (Some 9) (objects exampleStore a) \<and>
                \<not> isFunction (methods (objects exampleStore a) ''render''))"
    by simp
  have c: "ArgObject 4 = ArgUndefined \<or> ArgObject 4 = ArgNull \<or>
           (\<exists>a. ArgObject 4 = ArgObject a \<and> isForwardRef (Some 9) (objects exampleStore a) \<and>
                \<not> isFunction (methods (objects exampleStore a) ''render''))"
    using exampleStore_facts(5,6) by blast
  from invalid_input_raises [OF a] invalid_input_raises [OF b] invalid_input_raises [OF c]
  show ?thesis by simp
qed

section \<open>A class that extends PureComponent\<close>

text \<open>
  Claim C7, as the code has it. For an argument whose \<^verbatim>\<open>__proto__\<close> is the host's
  \<^verbatim>\<open>PureComponent\<close> the transform prints the warning. It throws only when the argument is a
  forward ref whose \<^verbatim>\<open>render\<close> is not a function; on the class path it returns the class
  itself, upgraded.
\<close>

theorem pure_component_warns:
  assumes "proto (objects s a) = ProtoPureComponent"
  shows "WarnPureComponent \<in> set (fst (observer RFS s (ArgObject a))) \<and>
         (isl (snd (observer RFS s (ArgObject a))) =
            (isForwardRef RFS (objects s a) \<and> \<not> isFunction (methods (objects s a) ''render''))) \<and>
         (\<not> isForwardRef RFS (objects s a) \<and> \<not> isFunctionComponent s (objects s a) \<longrightarrow>
            (\<exists>s'. snd (observer RFS s (ArgObject a)) = Inr (a, s') \<and>
                  isMobXReactObserver (objects s' a)))"
proof -
  let ?fr = "isForwardRef RFS (objects s a)"
  let ?fn = "isFunction (methods (objects s a) ''render'')"
  let ?fc = "isFunctionComponent s (objects s a)"
  let ?res = "snd (observer RFS s (ArgObject a))"
  have 1: "WarnPureComponent \<in> set (fst (observer RFS s (ArgObject a)))"
    using assms by (simp add: observer_results(4))
  have bad: "?fr \<Longrightarrow> \<not> ?fn \<Longrightarrow> isl ?res"
    by (simp add: observer_results(1))
  have good: "\<not> (?fr \<and> \<not> ?fn) \<Longrightarrow> \<not> isl ?res"
  proof -
    assume h: "\<not> (?fr \<and> \<not> ?fn)"
    consider (fwd) "?fr" "?fn" | (fnc) "\<not> ?fr" "?fc" | (cls) "\<not> ?fr" "\<not> ?fc"
      using h by blast
    then have "\<exists>r. ?res = Inr r"
    proof cases
      case fwd
      from observer_results(2) [OF fwd] show ?thesis by blast
    next
      case fnc
      from observer_results(3) [OF fnc] show ?thesis by blast
    next
      case cls
      from observer_class_result [OF cls] show ?thesis by blast
    qed
    then obtain r where "?res = Inr r" ..
    then show "\<not> isl ?res" by simp
  qed
  from bad good have 2: "isl ?res = (?fr \<and> \<not> ?fn)" by blast
  have 3: "\<not> ?fr \<and> \<not> ?fc \<longrightarrow> (\<exists>s'. ?res = Inr (a, s') \<and> isMobXReactObserver (objects s' a))"
    using observer_class_result [of RFS s a] by blast
  from 1 2 3 show ?thesis by (intro conjI)
qed

text \<open>The class at address 2 of the example store, whose prototype is at address 3.\<close>

theorem pure_component_warns_witness:
  "WarnPureComponent \<in> set (fst (observer (Some 9) exampleStore (ArgObject 2))) \<and>
   \<not> isl (snd (observer (Some 9) exampleStore (ArgObject 2))) \<and>
   (\<exists>s'. snd (observer (Some 9) exampleStore (ArgObject 2)) = Inr (2, s') \<and>
         isMobXReactObserver (objects s' 2))"
proof -
  note th = pure_component_warns [OF exampleStore_facts(7), of "Some 9"]
  have 1: "WarnPureComponent \<in> set (fst (observer (Some 9) exampleStore (ArgObject 2)))"
    by (rule th [THEN conjunct1])
  have 2: "\<not> isl (snd (observer (Some 9) exampleStore (ArgObject 2)))"
    using th [THEN conjunct2, THEN conjunct1] exampleStore_facts(3) by simp
  have 3: "\<exists>s'. snd (observer (Some 9) exampleStore (ArgObject 2)) = Inr (2, s') \<and>
         isMobXReactObserver (objects s' 2)"
    using th [THEN conjunct2, THEN conjunct2] exampleStore_facts(3,4) by blast
  from 1 2 3 show ?thesis by (intro conjI)
qed

text \<open>
  Claim C7 as stated fails: the class at address 2 extends \<^verbatim>\<open>PureComponent\<close>, and
  \<^verbatim>\<open>observer\<close> prints two warnings, throws nothing and returns the class, marked as an
  observer and with its render wrapped.
\<close>

theorem pure_component_is_upgraded:
  "proto (objects exampleStore 2) = ProtoPureComponent \<and>
   fst (observer (Some 9) exampleStore (ArgObject 2)) = [WarnPureComponent, WarnShouldComponentUpdate] \<and>
   \<not> isl (snd (observer (Some 9) exampleStore (ArgObject 2))) \<and>
   fst (projr (snd (observer (Some 9) exampleStore (ArgObject 2)))) = 2 \<and>
   isMobXReactObserver (objects (snd (projr (snd (observer (Some 9) exampleStore (ArgObject 2))))) 2) \<and>
   methods (objects (snd (projr (snd (observer (Some 9) exampleStore (ArgObject 2))))) 3) ''render''
     = RenderWrapper (UserFunction 1)"
  by (simp add: observer_def exampleStore_def emptyObject_def isForwardRef_def
        isFunctionComponent_def observerTarget_def Let_def split_beta mixinLifecycleEvents_def
        patch_def updateObject_def makeObservableProp_def)

section \<open>The default update predicate\<close>

lemma shallowEqual_objects:
  "shallowEqual h (JObj p) (JObj q) =
     (p = q \<or>
      (length (h p) = length (h q) \<and>
       (\<forall>k \<in> set (map fst (h p)). k \<in> set (map fst (h q)) \<and> map_of (h p) k = map_of (h q) k)))"
  by (auto simp: shallowEqual_def list_all_iff)

lemma shouldComponentUpdate_result:
  "fst (reactiveMixin_shouldComponentUpdate g c nextProps nextState) =
     (valueHolder c State \<noteq> nextState \<or> \<not> shallowEqual (heap g) (valueHolder c Props) nextProps)"
  by (simp add: reactiveMixin_shouldComponentUpdate_def getProp_def getAtom_def Let_def split_beta)

text \<open>
  Claim C6. On the class path the transform returns the class, and the
  \<^verbatim>\<open>shouldComponentUpdate\<close> of its target afterwards is the target's own when that was
  truthy and the mixin's otherwise; the warning is printed exactly when the target had its
  own, other than the mixin's. The mixin's predicate answers true exactly when
  \<^verbatim>\<open>this.state !== nextState\<close> or the old and new props are not shallow-equal; two
  distinct props objects are shallow-equal exactly when they have as many keys and every
  key of the old one is a key of the new one with an identical value.
\<close>

theorem default_shouldComponentUpdate:
  assumes "\<not> isForwardRef RFS (objects s a)" and "\<not> isFunctionComponent s (objects s a)"
  shows "(\<exists>ws s'. observer RFS s (ArgObject a) = (ws, Inr (a, s')) \<and>
            methods (objects s' (observerTarget s a)) ''shouldComponentUpdate'' =
              (if slotTruthy (methods (objects s (observerTarget s a)) ''shouldComponentUpdate'')
               then methods (objects s (observerTarget s a)) ''shouldComponentUpdate''
               else ReactiveMixin ''shouldComponentUpdate'') \<and>
            (WarnShouldComponentUpdate \<in> set ws) =
              (slotTruthy (methods (objects s (observerTarget s a)) ''shouldComponentUpdate'') \<and>
               methods (objects s (observerTarget s a)) ''shouldComponentUpdate'' \<noteq>
                 ReactiveMixin ''shouldComponentUpdate'')) \<and>
         fst (reactiveMixin_shouldComponentUpdate g c nextProps nextState) =
           (valueHolder c State \<noteq> nextState \<or>
            \<not> shallowEqual (heap g) (valueHolder c Props) nextProps) \<and>
         (\<forall>p q. shallowEqual (heap g) (JObj p) (JObj q) =
            (p = q \<or>
             (length (heap g p) = length (heap g q) \<and>
              (\<forall>k \<in> set (map fst (heap g p)).
                  k \<in> set (map fst (heap g q)) \<and> map_of (heap g p) k = map_of (heap g q) k))))"
proof -
  let ?t = "observerTarget s a"
  let ?scu = "methods (objects s ?t) ''shouldComponentUpdate''"
  from observer_class_path [OF assms] obtain s' where
    o: "observer RFS s (ArgObject a) =
           ((if isMobxInjector (objects s a) then [WarnInjector] else []) @
            (if proto (objects s a) = ProtoPureComponent then [WarnPureComponent] else []) @
            fst (mixinLifecycleEvents s ?t),
            Inr (a, s'))"
    and m: "methods (objects s' ?t) =
            (methods (objects (snd (mixinLifecycleEvents s ?t)) ?t))
              (''render'' := RenderWrapper (methods (objects s ?t) ''render''))"
    by blast
  have slot: "methods (objects s' ?t) ''shouldComponentUpdate'' =
      (if slotTruthy ?scu then ?scu else ReactiveMixin ''shouldComponentUpdate'')"
    by (simp add: m mixinLifecycleEvents_store)
  have warn: "(WarnShouldComponentUpdate \<in> set (fst (observer RFS s (ArgObject a)))) =
      (slotTruthy ?scu \<and> ?scu \<noteq> ReactiveMixin ''shouldComponentUpdate'')"
    by (simp add: o mixinLifecycleEvents_warnings)
  have first: "\<exists>ws s'. observer RFS s (ArgObject a) = (ws, Inr (a, s')) \<and>
            methods (objects s' ?t) ''shouldComponentUpdate'' =
              (if slotTruthy ?scu then ?scu else ReactiveMixin ''shouldComponentUpdate'') \<and>
            (WarnShouldComponentUpdate \<in> set ws) =
              (slotTruthy ?scu \<and> ?scu \<noteq> ReactiveMixin ''shouldComponentUpdate'')"
    using o slot warn by (metis fst_conv)
  show ?thesis
    using first shouldComponentUpdate_result [of g c nextProps nextState]
      shallowEqual_objects [of "heap g"]
    by (intro conjI allI)
qed

text \<open>
  The class at address 0 has no \<^verbatim>\<open>shouldComponentUpdate\<close> and gets the mixin's, without a
  warning; the class at address 2 has its own, keeps it and is warned about. The pizza
  instance need not update for a new props object with the same pizza, must update when
  the pizza is incremented, and must update when the state is another value.
\<close>

theorem default_shouldComponentUpdate_witness:
  "(\<exists>ws s'. observer (Some 9) exampleStore (ArgObject 0) = (ws, Inr (0, s')) \<and>
      methods (objects s' 1) ''shouldComponentUpdate'' = ReactiveMixin ''shouldComponentUpdate'' \<and>
      WarnShouldComponentUpdate \<notin> set ws) \<and>
   (\<exists>ws s'. observer (Some 9) exampleStore (ArgObject 2) = (ws, Inr (2, s')) \<and>
      methods (objects s' 3) ''shouldComponentUpdate'' = UserFunction 2 \<and>
      WarnShouldComponentUpdate \<in> set ws) \<and>
   \<not> fst (reactiveMixin_shouldComponentUpdate (initialGlobals\<lparr>heap := pizzaHeap\<rparr>)
           pizzaInstance (JObj 2) JNull) \<and>
   fst (reactiveMixin_shouldComponentUpdate (initialGlobals\<lparr>heap := pizzaHeap\<rparr>)
           pizzaInstance (JObj 3) JNull) \<and>
   fst (reactiveMixin_shouldComponentUpdate (initialGlobals\<lparr>heap := pizzaHeap\<rparr>)
           pizzaInstance (JObj 1) (JObj 4))"
proof -
  let ?g = "initialGlobals\<lparr>heap := pizzaHeap\<rparr>"
  note a = default_shouldComponentUpdate [OF exampleStore_facts(1,2), of ?g pizzaInstance "JObj 2" JNull]
  note b = default_shouldComponentUpdate [OF exampleStore_facts(3,4), of ?g pizzaInstance "JObj 3" JNull]
  note c = default_shouldComponentUpdate [OF exampleStore_facts(1,2), of ?g pizzaInstance "JObj 1" "JObj 4"]
  have v: "valueHolder pizzaInstance State = JNull" "valueHolder pizzaInstance Props = JObj 1"
    "heap ?g = pizzaHeap"
    by (simp_all add: pizzaInstance_def)
  have e: "shallowEqual pizzaHeap (JObj 1) (JObj 2)" "\<not> shallowEqual pizzaHeap (JObj 1) (JObj 3)"
    by (simp_all add: shallowEqual_def pizzaHeap_def)
  from a [THEN conjunct1] have 1: "\<exists>ws s'. observer (Some 9) exampleStore (ArgObject 0) = (ws, Inr (0, s')) \<and>
      methods (objects s' 1) ''shouldComponentUpdate'' = ReactiveMixin ''shouldComponentUpdate'' \<and>
      WarnShouldComponentUpdate \<notin> set ws"
    by (simp add: exampleStore_facts(8) exampleStore_slots(1) del: One_nat_def)
  from b [THEN conjunct1] have 2: "\<exists>ws s'. observer (Some 9) exampleStore (ArgObject 2) = (ws, Inr (2, s')) \<and>
      methods (objects s' 3) ''shouldComponentUpdate'' = UserFunction 2 \<and>
      WarnShouldComponentUpdate \<in> set ws"
    by (simp add: exampleStore_facts(9) exampleStore_slots(2) del: One_nat_def)
  from a [THEN conjunct2, THEN conjunct1] v e(1)
  have 3: "\<not> fst (reactiveMixin_shouldComponentUpdate ?g pizzaInstance (JObj 2) JNull)"
    by simp
  from b [THEN conjunct2, THEN conjunct1] v e(2)
  have 4: "fst (reactiveMixin_shouldComponentUpdate ?g pizzaInstance (JObj 3) JNull)"
    by simp
  from c [THEN conjunct2, THEN conjunct1] v
  have 5: "fst (reactiveMixin_shouldComponentUpdate ?g pizzaInstance (JObj 1) (JObj 4))"
    by simp
  from 1 2 3 4 5 show ?thesis by (intro conjI)
qed

section \<open>Class components are upgraded in place\<close>

text \<open>
  Claim C9. Let the argument be a class component (a function whose prototype has a render
  function, or an object that is not a function and has one) and not a forward ref. Then
  \<^verbatim>\<open>observer\<close> returns the argument's own address. No object is created and no object
  other than the argument and its target (its prototype, or itself when it has none) is
  changed. The argument is marked \<^verbatim>\<open>isMobXReactObserver\<close>; the target's render is the
  wrapper around its previous render, its three lifecycle methods are patched, and the
  \<^verbatim>\<open>props\<close> and \<^verbatim>\<open>state\<close> accessors are defined on it.
\<close>

theorem observer_upgrades_in_place:
  assumes "\<not> isForwardRef RFS (objects s a)"
      and "(callable (objects s a) \<and>
              (\<exists>p. prototype (objects s a) = Some p \<and> isFunction (methods (objects s p) ''render''))) \<or>
           (\<not> callable (objects s a) \<and> isFunction (methods (objects s a) ''render''))"
  shows "\<exists>ws s'. observer RFS s (ArgObject a) = (ws, Inr (a, s')) \<and>
          nextFree s' = nextFree s \<and>
          (\<forall>b. b \<noteq> a \<and> b \<noteq> observerTarget s a \<longrightarrow> objects s' b = objects s b) \<and>
          isMobXReactObserver (objects s' a) \<and>
          methods (objects s' (observerTarget s a)) ''render'' =
            RenderWrapper (methods (objects s (observerTarget s a)) ''render'') \<and>
          (\<forall>f \<in> {''componentDidMount'', ''componentWillUnmount'', ''componentDidUpdate''}.
             methods (objects s' (observerTarget s a)) f =
               Patched (methods (objects s (observerTarget s a)) f) f) \<and>
          accessors (objects s' (observerTarget s a)) =
            insert ''props'' (insert ''state'' (accessors (objects s (observerTarget s a))))"
proof -
  let ?t = "observerTarget s a"
  have nfc: "\<not> isFunctionComponent s (objects s a)"
  proof -
    have "\<And>sl. isFunction sl \<Longrightarrow> slotTruthy sl"
      subgoal for sl by (cases sl) simp_all
      done
    with assms(2) show ?thesis
      by (auto simp: isFunctionComponent_def)
  qed
  from observer_class_path [OF assms(1) nfc] obtain s' where
    o: "observer RFS s (ArgObject a) =
           ((if isMobxInjector (objects s a) then [WarnInjector] else []) @
            (if proto (objects s a) = ProtoPureComponent then [WarnPureComponent] else []) @
            fst (mixinLifecycleEvents s ?t),
            Inr (a, s'))"
    and n: "nextFree s' = nextFree s"
    and fr: "\<forall>b. b \<noteq> a \<and> b \<noteq> ?t \<longrightarrow> objects s' b = objects s b"
    and ob: "isMobXReactObserver (objects s' a)"
    and ac: "accessors (objects s' ?t) = insert ''props'' (insert ''state'' (accessors (objects s ?t)))"
    and m: "methods (objects s' ?t) =
            (methods (objects (snd (mixinLifecycleEvents s ?t)) ?t))
              (''render'' := RenderWrapper (methods (objects s ?t) ''render''))"
    by blast
  have r: "methods (objects s' ?t) ''render'' = RenderWrapper (methods (objects s ?t) ''render'')"
    by (simp add: m)
  have l: "\<forall>f \<in> {''componentDidMount'', ''componentWillUnmount'', ''componentDidUpdate''}.
             methods (objects s' ?t) f = Patched (methods (objects s ?t) f) f"
    by (simp add: m mixinLifecycleEvents_store)
  from o n fr ob r l ac show ?thesis by blast
qed

text \<open>The class at address 0 of the example store, whose prototype is at address 1.\<close>

theorem observer_upgrades_in_place_witness:
  "\<exists>ws s'. observer (Some 9) exampleStore (ArgObject 0) = (ws, Inr (0, s')) \<and>
      nextFree s' = 5 \<and>
      objects s' 2 = objects exampleStore 2 \<and>
      isMobXReactObserver (objects s' 0) \<and>
      methods (objects s' 1) ''render'' = RenderWrapper (UserFunction 0) \<and>
      methods (objects s' 1) ''componentWillUnmount'' = Patched Absent ''componentWillUnmount'' \<and>
      accessors (objects s' 1) = {''props'', ''state''}"
proof -
  have h: "(callable (objects exampleStore 0) \<and>
              (\<exists>p. prototype (objects exampleStore 0) = Some p \<and>
                   isFunction (methods (objects exampleStore p) ''render''))) \<or>
           (\<not> callable (objects exampleStore 0) \<and>
              isFunction (methods (objects exampleStore 0) ''render''))"
    by (simp add: exampleStore_slots del: One_nat_def)
  let ?t = "observerTarget exampleStore 0"
  from observer_upgrades_in_place [OF exampleStore_facts(1) h] obtain ws s' where
    th: "observer (Some 9) exampleStore (ArgObject 0) = (ws, Inr (0, s')) \<and>
          nextFree s' = nextFree exampleStore \<and>
          (\<forall>b. b \<noteq> 0 \<and> b \<noteq> ?t \<longrightarrow> objects s' b = objects exampleStore b) \<and>
          isMobXReactObserver (objects s' 0) \<and>
          methods (objects s' ?t) ''render'' = RenderWrapper (methods (objects exampleStore ?t) ''render'') \<and>
          (\<forall>f \<in> {''componentDidMount'', ''componentWillUnmount'', ''componentDidUpdate''}.
             methods (objects s' ?t) f = Patched (methods (objects exampleStore ?t) f) f) \<and>
          accessors (objects s' ?t) =
            insert ''props'' (insert ''state'' (accessors (objects exampleStore ?t)))"
    by (elim exE)
  note o = th [THEN conjunct1]
  note n = th [THEN conjunct2, THEN conjunct1]
  note fr = th [THEN conjunct2, THEN conjunct2, THEN conjunct1]
  note ob = th [THEN conjunct2, THEN conjunct2, THEN conjunct2, THEN conjunct1]
  note r = th [THEN conjunct2, THEN conjunct2, THEN conjunct2, THEN conjunct2, THEN conjunct1]
  note l = th [THEN conjunct2, THEN conjunct2, THEN conjunct2, THEN conjunct2, THEN conjunct2,
               THEN conjunct1]
  note ac = th [THEN conjunct2, THEN conjunct2, THEN conjunct2, THEN conjunct2, THEN conjunct2,
                THEN conjunct2]
  have t: "?t = 1" by (rule exampleStore_facts(8))
  have 1: "nextFree s' = 5" using n by (simp only: exampleStore_slots(8))
  have "(2::nat) \<noteq> 0 \<and> 2 \<noteq> ?t" by (simp add: t)
  from fr [rule_format, OF this] have 2: "objects s' 2 = objects exampleStore 2" .
  have 3: "methods (objects s' 1) ''render'' = RenderWrapper (UserFunction 0)"
    using r by (simp only: t exampleStore_slots(3))
  have "''componentWillUnmount'' \<in> {''componentDidMount'', ''componentWillUnmount'', ''componentDidUpdate''}"
    by simp
  from l [rule_format, OF this]
  have 4: "methods (objects s' 1) ''componentWillUnmount'' = Patched Absent ''componentWillUnmount''"
    by (simp only: t exampleStore_slots(4))
  have 5: "accessors (objects s' 1) = {''props'', ''state''}"
    using ac by (simp only: t exampleStore_slots(5))
  have "observer (Some 9) exampleStore (ArgObject 0) = (ws, Inr (0, s')) \<and>
      nextFree s' = 5 \<and>
      objects s' 2 = objects exampleStore 2 \<and>
      isMobXReactObserver (objects s' 0) \<and>
      methods (objects s' 1) ''render'' = RenderWrapper (UserFunction 0) \<and>
      methods (objects s' 1) ''componentWillUnmount'' = Patched Absent ''componentWillUnmount'' \<and>
      accessors (objects s' 1) = {''props'', ''state''}"
    using o 1 2 ob 3 4 5 by (intro conjI)
  then show ?thesis by (intro exI)
qed

end
